theory Spec2Isabelle
  imports Main "HOL-Library.Word"
begin

unbundle bit_operations_syntax

section \<open>Constants and the register page (main.cpp, lines 23-65)\<close>

text \<open>
  The utility maps one page of GPIO registers and reads and writes it as an array of
  32-bit words (\<open>uint32_t *gpio_port\<close>). The page is modelled as a function from the word
  index to the register value; only the indices below \<open>PAGE_SIZE / 4\<close> exist, and the
  model makes an access beyond them (or with a negative pin) an explicit failure.
  A leading underscore is not part of an Isabelle name, so \<open>_init_gpio_pin\<close> is
  \<open>init_gpio_pin\<close> here, and likewise for the other functions.
\<close>

type_synonym u8 = "8 word"
type_synonym u32 = "32 word"
type_synonym page = "nat \<Rightarrow> u32"

datatype pi_hat = HAT0 | HAT1

definition NUM_CONSECUTIVE_GPIO_WRITES :: nat where
  "NUM_CONSECUTIVE_GPIO_WRITES = 5"

definition FPGA2_NCE_GPIO_PIN :: nat where
  "FPGA2_NCE_GPIO_PIN = 2"

definition DCLK_GPIO_PIN :: nat where
  "DCLK_GPIO_PIN = 3"

definition DATA0_GPIO_PIN :: nat where
  "DATA0_GPIO_PIN = 16"

definition NCONFIG_GPIO_PIN :: nat where
  "NCONFIG_GPIO_PIN = 17"

definition BOARD_REV_GPIO_PIN_1 :: nat where
  "BOARD_REV_GPIO_PIN_1 = 20"

definition BOARD_REV_GPIO_PIN_2 :: nat where
  "BOARD_REV_GPIO_PIN_2 = 21"

definition PAGE_SIZE :: nat where
  "PAGE_SIZE = 4096"

definition GPIO_RD_OFFSET :: nat where
  "GPIO_RD_OFFSET = 0x34"

definition GPIO_PULL_BASE_OFFSET :: nat where
  "GPIO_PULL_BASE_OFFSET = 0xE4"

text \<open>\<open>sizeof(uint32_t)\<close> is 4: the number of 32-bit words of the mapped page.\<close>

definition page_words :: nat where
  "page_words = PAGE_SIZE div 4"

section \<open>Pin Controller: \<open>_init_gpio_pin\<close> (main.cpp, lines 208-225)\<close>

text \<open>
  The four index expressions of \<open>_init_gpio_pin(int pin, bool output)\<close>, for a pin that
  is not negative (C++ division and remainder then agree with \<open>div\<close> and \<open>mod\<close>):
  \<open>pin / 10\<close>, \<open>(pin % 10) * 3\<close>, the local \<open>pull_reg_offset\<close> and the local
  \<open>pull_bits_offset\<close>.
\<close>

definition fsel_reg_offset :: "int \<Rightarrow> nat" where
  "fsel_reg_offset pin = nat (pin div 10)"

definition fsel_bits_offset :: "int \<Rightarrow> nat" where
  "fsel_bits_offset pin = nat ((pin mod 10) * 3)"

definition pull_reg_offset :: "int \<Rightarrow> nat" where
  "pull_reg_offset pin = GPIO_PULL_BASE_OFFSET div 4 + nat ((pin div 16) * 4)"

definition pull_bits_offset :: "int \<Rightarrow> nat" where
  "pull_bits_offset pin = nat ((pin mod 16) * 2)"

text \<open>
  \<open>_init_gpio_pin\<close>. The output branch is the single statement
  \<open>*(gpio_port + (pin / 10)) |= (1 << ((pin % 10) * 3))\<close>; the input branch clears the
  three function-select bits with \<open>&= ~(7 << ...)\<close>, then clears the two pull bits with
  \<open>&= ~(3 << pull_bits_offset)\<close> and then sets the lower of them with
  \<open>|= (1 << pull_bits_offset)\<close>. A negative pin (a negative shift count or an index
  before the page) and a register index outside the page are undefined behaviour in the
  source; the model returns \<open>None\<close> there.
\<close>

definition init_gpio_pin :: "int \<Rightarrow> bool \<Rightarrow> page \<Rightarrow> page option" where
  "init_gpio_pin pin output m =
     (if pin < 0 then None
      else if output then
        (if fsel_reg_offset pin < page_words
         then Some (m(fsel_reg_offset pin :=
                        m (fsel_reg_offset pin) OR push_bit (fsel_bits_offset pin) 1))
         else None)
      else
        (if fsel_reg_offset pin < page_words \<and> pull_reg_offset pin < page_words
         then
           (let m1 = m(fsel_reg_offset pin :=
                         m (fsel_reg_offset pin) AND NOT (push_bit (fsel_bits_offset pin) 7));
                m2 = m1(pull_reg_offset pin :=
                         m1 (pull_reg_offset pin) AND NOT (push_bit (pull_bits_offset pin) 3));
                m3 = m2(pull_reg_offset pin :=
                         m2 (pull_reg_offset pin) OR push_bit (pull_bits_offset pin) 1)
            in Some m3)
         else None))"

text \<open>
  An observation used by the statements below: the 3-bit function-select field of a pin
  (0 is "input", 1 is "output").
\<close>

definition fsel_field :: "page \<Rightarrow> int \<Rightarrow> u32" where
  "fsel_field m pin = take_bit 3 (drop_bit (fsel_bits_offset pin) (m (fsel_reg_offset pin)))"

text \<open>
  Modelled from the spec: the "pin-specific pull-control register" of its section 4.2, a
  register bank of the hardware that the source does not declare. The bank starts at
  \<open>GPIO_PULL_BASE_OFFSET\<close> and holds one 2-bit field per pin, sixteen pins to a 32-bit
  register (the source's \<open>pull_bits_offset\<close> is \<open>(pin % 16) * 2\<close>), so the register of a
  pin is word \<open>pin / 16\<close> of the bank, as register \<open>pin / 10\<close> is in the function-select
  bank. A field is 0 for "no pull" and 1 for "pull-up", the value the code writes.
  \<open>pull_field\<close> reads a pin's field in this register, whatever word the code wrote to.
\<close>

definition pull_control_reg :: "int \<Rightarrow> nat" where
  "pull_control_reg pin = GPIO_PULL_BASE_OFFSET div 4 + nat (pin div 16)"

definition pull_field :: "page \<Rightarrow> int \<Rightarrow> u32" where
  "pull_field m pin = take_bit 2 (drop_bit (pull_bits_offset pin) (m (pull_control_reg pin)))"

definition zero_page :: page where
  "zero_page = (\<lambda>i. 0)"

section \<open>Events, faults and the program state (main.cpp, lines 47-65)\<close>

text \<open>
  What the program does to the outside is recorded as a trace of events, in the order
  in which they happen: a write of a value to the pin-set register
  (\<open>*gpio_set_reg = v\<close>), a write to the pin-clear register, a line on standard output,
  the 1 ms sleep, \<open>delete [] binary_data\<close> and \<open>munmap\<close>. The elapsed time printed in
  the "configured" line is not part of the model.
\<close>

datatype board_rev = RevA | RevB | RevC | RevD

datatype msg =
    AppBanner
  | AppVersion nat nat nat
  | BlankLine
  | GpioOpenAndSetup
  | GpioOpenSetupError
  | DetectedBoardRev board_rev
  | CouldNotOpen nat
  | BinaryFileSize nat u32
  | Configured nat
  | GpioPortClosed
  | ConfigCompleted

datatype event =
    GpioSet u32
  | GpioClr u32
  | Console msg
  | Sleep1ms
  | DeleteBinaryData
  | Munmap

text \<open>
  The ways in which a run ends without returning from \<open>main\<close>: a read through a null
  register pointer, an access outside the mapped page, and the \<open>std::bad_alloc\<close> that
  \<open>new uint8_t[file_size]\<close> throws and nothing catches.
\<close>

datatype fault = NullDereference | OutsidePage | BadAlloc

text \<open>
  The global variables. \<open>gpio_port\<close> is \<open>None\<close> for the null pointer and otherwise holds
  the contents of the mapped page; \<open>gpio_rd_reg\<close> is \<open>None\<close> for the null pointer (its
  value as a zero-initialised global) and otherwise the word index of the register it
  points to. \<open>gpio_set_reg\<close> and \<open>gpio_clr_reg\<close> are assigned together with
  \<open>gpio_rd_reg\<close>, and every use of \<open>SET_GPIO_PIN\<close> and \<open>CLR_GPIO_PIN\<close> in the source sits
  under a test of \<open>gpio_port\<close>, so their writes are recorded as events without a fault
  case. \<open>polls\<close> counts the reads of \<open>exit_flag\<close> made so far (see below).
\<close>

record state =
  gpio_port :: "page option"
  gpio_rd_reg :: "nat option"
  binary_data :: "u8 list option"
  binary_data_size :: u32
  polls :: nat
  trace :: "event list"

text \<open>
  What a run depends on from outside: the build variant \<open>MELBINST_PI_HAT\<close>, whether
  \<open>/dev/mem\<close> can be opened and mapped (and the register contents then), the values of
  the pin-level register at the two strap reads, the two bitstream files (\<open>None\<close> when
  the file cannot be opened), for which sizes the allocation throws, and the
  termination signal.

  \<open>_sigint_handler\<close> only sets \<open>exit_flag\<close>, and nothing ever clears it. \<open>sigint = Some t\<close>
  says that the handler runs after the program has read the flag \<open>t\<close> times and before
  its next read, \<open>None\<close> that no signal arrives.

  \<open>exit_flag\<close> is a plain \<open>bool\<close>, neither \<open>volatile\<close> nor atomic, and the loops that test
  it hold nothing but stores through the \<open>volatile\<close> register pointers. The source
  therefore does not say which read is the first to see the handler's write, nor that
  any read sees it: a build may keep the flag in a register. \<open>lag = Some d\<close> says that
  the first read to find the flag set is the one \<open>d\<close> reads after the handler ran (0 for
  the very next read), \<open>None\<close> that no read ever finds it set.
\<close>

record env =
  hat :: pi_hat
  mmap_result :: "page option"
  rd_value_1 :: u32
  rd_value_2 :: u32
  fpga1_file :: "u8 list option"
  fpga2_file :: "u8 list option"
  new_throws :: "nat \<Rightarrow> bool"
  sigint :: "nat option"
  lag :: "nat option"

definition initial_state :: state where
  "initial_state = \<lparr>gpio_port = None, gpio_rd_reg = None, binary_data = None,
                    binary_data_size = 0, polls = 0, trace = []\<rparr>"

definition emit :: "event \<Rightarrow> state \<Rightarrow> state" where
  "emit ev st = st\<lparr>trace := trace st @ [ev]\<rparr>"

definition MSG :: "msg \<Rightarrow> state \<Rightarrow> state" where
  "MSG str st = emit (Console str) st"

text \<open>
  The macros. \<open>RD_GPIO_PIN\<close> takes the value read from the pin-level register. The pin
  arguments are the constants above, all below 32.
\<close>

definition RD_GPIO_PIN :: "u32 \<Rightarrow> nat \<Rightarrow> u32" where
  "RD_GPIO_PIN rd pin = (drop_bit pin rd) AND 0x01"

definition SET_GPIO_PIN :: "nat \<Rightarrow> state \<Rightarrow> state" where
  "SET_GPIO_PIN pin st = emit (GpioSet (push_bit pin 1)) st"

definition CLR_GPIO_PIN :: "nat \<Rightarrow> state \<Rightarrow> state" where
  "CLR_GPIO_PIN pin st = emit (GpioClr (push_bit pin 1)) st"

definition SET_DCLK_PIN :: "state \<Rightarrow> state" where
  "SET_DCLK_PIN st =
     fold (\<lambda>i. SET_GPIO_PIN DCLK_GPIO_PIN) [0..<NUM_CONSECUTIVE_GPIO_WRITES] st"

definition CLR_DCLK_PIN :: "state \<Rightarrow> state" where
  "CLR_DCLK_PIN st =
     fold (\<lambda>i. CLR_GPIO_PIN DCLK_GPIO_PIN) [0..<NUM_CONSECUTIVE_GPIO_WRITES] st"

text \<open>
  \<open>signalled sig p\<close>: the moment \<open>sig\<close> is not later than read number \<open>p\<close> (reads are
  counted from 0). \<open>seen_from\<close> gives the number of the first read that finds the flag
  set, from the moment the handler runs and the lag; \<open>None\<close> when no read does.
\<close>

definition signalled :: "nat option \<Rightarrow> nat \<Rightarrow> bool" where
  "signalled sig p = (case sig of None \<Rightarrow> False | Some t \<Rightarrow> t \<le> p)"

definition seen_from :: "nat option \<Rightarrow> nat option \<Rightarrow> nat option" where
  "seen_from arrival delay =
     (case arrival of
        None \<Rightarrow> None
      | Some t \<Rightarrow> (case delay of None \<Rightarrow> None | Some d \<Rightarrow> Some (t + d)))"

definition exit_flag_seen :: "env \<Rightarrow> nat option" where
  "exit_flag_seen e = seen_from (sigint e) (lag e)"

text \<open>
  A read of \<open>exit_flag\<close>. The first argument is the number of the first read that finds
  the flag set (\<open>None\<close> when no read does), not the moment of the signal: the reads
  before it find the flag clear, that read and the later ones find it set, since nothing
  clears the flag.
\<close>

definition read_exit_flag :: "nat option \<Rightarrow> state \<Rightarrow> bool \<times> state" where
  "read_exit_flag seen st = (signalled seen (polls st), st\<lparr>polls := Suc (polls st)\<rparr>)"

section \<open>Serial Transfer Engine: \<open>_transfer_data\<close> (main.cpp, lines 314-357)\<close>

text \<open>
  The body of the \<open>for\<close> loop for one value of \<open>i\<close>: the bit \<open>(byte >> i) & 0x01\<close> decides
  between setting and clearing the data pin, then the clock is set and cleared.
\<close>

definition send_bit :: "u8 \<Rightarrow> nat \<Rightarrow> state \<Rightarrow> state" where
  "send_bit byte i st =
     (let bit_val = (drop_bit i byte) AND 0x01;
          st1 = (if bit_val \<noteq> 0 then SET_GPIO_PIN DATA0_GPIO_PIN st
                 else CLR_GPIO_PIN DATA0_GPIO_PIN st);
          st2 = SET_DCLK_PIN st1
      in CLR_DCLK_PIN st2)"

text \<open>\<open>for (int i=0; i<8; i++)\<close>.\<close>

definition send_byte :: "u8 \<Rightarrow> state \<Rightarrow> state" where
  "send_byte byte st = fold (send_bit byte) [0..<8] st"

text \<open>
  \<open>while (!exit_flag && (data < (binary_data + binary_data_size)))\<close>: the list holds the
  bytes from \<open>data\<close> to the end of the image. Each evaluation of the condition tests the
  flag first, also the one that finds the image exhausted. What a test finds is given
  by \<open>seen\<close>, the first argument of \<open>read_exit_flag\<close>.
\<close>

fun data_loop :: "nat option \<Rightarrow> u8 list \<Rightarrow> state \<Rightarrow> state" where
  "data_loop seen [] st = snd (read_exit_flag seen st)"
| "data_loop seen (byte # rest) st =
     (case read_exit_flag seen st of
        (flag, st1) \<Rightarrow> if flag then st1 else data_loop seen rest (send_byte byte st1))"

text \<open>
  \<open>while (!exit_flag && dclk_count--)\<close>: the flag is tested first; when it is found
  clear, the old value of \<open>dclk_count\<close> decides and the counter goes down by one.
\<close>

fun dclk_loop :: "nat option \<Rightarrow> nat \<Rightarrow> state \<Rightarrow> state" where
  "dclk_loop seen 0 st = snd (read_exit_flag seen st)"
| "dclk_loop seen (Suc dclk_count) st =
     (case read_exit_flag seen st of
        (flag, st1) \<Rightarrow> if flag then st1
                       else dclk_loop seen dclk_count (CLR_DCLK_PIN (SET_DCLK_PIN st1)))"

text \<open>
  The bytes between \<open>binary_data\<close> and \<open>binary_data + binary_data_size\<close>. The program
  assigns both from the same \<open>file_size\<close>, so the size never exceeds the buffer.
\<close>

definition bitstream :: "state \<Rightarrow> u8 list" where
  "bitstream st = (case binary_data st of None \<Rightarrow> []
               | Some buf \<Rightarrow> take (unat (binary_data_size st)) buf)"

definition transfer_data :: "nat option \<Rightarrow> state \<Rightarrow> state" where
  "transfer_data seen st = dclk_loop seen 10 (data_loop seen (bitstream st) st)"

section \<open>Board Revision Detector: \<open>_print_board_rev_info\<close> (main.cpp, lines 391-415)\<close>

text \<open>
  \<open>uint rev = RD_GPIO_PIN(BOARD_REV_GPIO_PIN_1) + (RD_GPIO_PIN(BOARD_REV_GPIO_PIN_2) << 1)\<close>,
  from the values of the two reads of the pin-level register, and the \<open>switch\<close> on it.
\<close>

definition board_rev_code :: "u32 \<Rightarrow> u32 \<Rightarrow> u32" where
  "board_rev_code rd1 rd2 =
     RD_GPIO_PIN rd1 BOARD_REV_GPIO_PIN_1 + push_bit 1 (RD_GPIO_PIN rd2 BOARD_REV_GPIO_PIN_2)"

definition board_rev_switch :: "u32 \<Rightarrow> state \<Rightarrow> state" where
  "board_rev_switch rev_code st =
     (if rev_code = 0 then MSG (DetectedBoardRev RevD) st
      else if rev_code = 1 then MSG (DetectedBoardRev RevB) st
      else if rev_code = 2 then MSG (DetectedBoardRev RevC) st
      else if rev_code = 3 then MSG (DetectedBoardRev RevA) st
      else st)"

text \<open>The function reads through \<open>gpio_rd_reg\<close> without testing it.\<close>

definition print_board_rev_info :: "env \<Rightarrow> state \<Rightarrow> fault + state" where
  "print_board_rev_info e st =
     (case gpio_rd_reg st of
        None \<Rightarrow> Inl NullDereference
      | Some r \<Rightarrow> Inr (board_rev_switch (board_rev_code (rd_value_1 e) (rd_value_2 e)) st))"

section \<open>Configuration Orchestrator (main.cpp, lines 84-203, 230-309, 362-386)\<close>

definition print_app_info :: "state \<Rightarrow> state" where
  "print_app_info st = MSG BlankLine (MSG (AppVersion 1 1 0) (MSG AppBanner st))"

text \<open>The five calls of \<open>_init_gpio_pin\<close> in \<open>_open_and_setup_gpio\<close>, in their order.\<close>

definition init_pins :: "pi_hat \<Rightarrow> page \<Rightarrow> page option" where
  "init_pins h m =
     Option.bind (init_gpio_pin (int NCONFIG_GPIO_PIN) True m) (\<lambda>m1.
     Option.bind (if h = HAT0 then init_gpio_pin (int FPGA2_NCE_GPIO_PIN) True m1 else Some m1) (\<lambda>m2.
     Option.bind (init_gpio_pin (int DCLK_GPIO_PIN) True m2) (\<lambda>m3.
     Option.bind (init_gpio_pin (int BOARD_REV_GPIO_PIN_1) False m3) (\<lambda>m4.
     init_gpio_pin (int BOARD_REV_GPIO_PIN_2) False m4))))"

text \<open>
  \<open>_open_and_setup_gpio\<close>: \<open>mmap_result\<close> is what \<open>_mmap_bcm_register_base\<close> returns
  (null when \<open>open\<close> or \<open>mmap\<close> fails). On success the three register pointers are set,
  the pins are initialised and the initial pin levels are written.
\<close>

definition open_and_setup_gpio :: "env \<Rightarrow> state \<Rightarrow> fault + state" where
  "open_and_setup_gpio e st =
     (case mmap_result e of
        None \<Rightarrow> Inr (MSG GpioOpenSetupError st)
      | Some m \<Rightarrow>
          (case init_pins (hat e) m of
             None \<Rightarrow> Inl OutsidePage
           | Some m' \<Rightarrow>
               (let st1 = st\<lparr>gpio_port := Some m', gpio_rd_reg := Some (GPIO_RD_OFFSET div 4)\<rparr>;
                    st2 = (if hat e = HAT0 then SET_GPIO_PIN FPGA2_NCE_GPIO_PIN st1 else st1);
                    st3 = CLR_GPIO_PIN DCLK_GPIO_PIN st2;
                    st4 = CLR_GPIO_PIN DATA0_GPIO_PIN st3;
                    st5 = CLR_GPIO_PIN NCONFIG_GPIO_PIN st4;
                    st6 = emit Sleep1ms st5
                in Inr (MSG GpioOpenAndSetup st6))))"

text \<open>
  \<open>_config_fpga1\<close> and \<open>_config_fpga2\<close>. \<open>binary_data_size\<close> is an \<open>uint\<close>, so the file
  size is stored modulo \<open>2 ^ 32\<close>. A new-expression never yields a null pointer (it
  throws), so the branch under \<open>if (!binary_data)\<close> is never taken and has no
  counterpart here. The buffer is filled by \<open>file.read\<close> before anything reads it; the
  model stores the contents when it stores the pointer. After \<open>_transfer_data\<close> returns,
  the "configured" line is printed without any test.
\<close>

definition config_fpga1 :: "env \<Rightarrow> state \<Rightarrow> fault + state" where
  "config_fpga1 e st =
     (case fpga1_file e of
        None \<Rightarrow> Inr (MSG (CouldNotOpen 1) st)
      | Some contents \<Rightarrow>
          (let file_size = length contents in
           if new_throws e file_size then Inl BadAlloc
           else
             (let st1 = st\<lparr>binary_data := Some contents, binary_data_size := of_nat file_size\<rparr>;
                  st2 = MSG (BinaryFileSize 1 (binary_data_size st1)) st1;
                  st3 = SET_GPIO_PIN NCONFIG_GPIO_PIN st2;
                  st4 = emit Sleep1ms st3;
                  st5 = transfer_data (exit_flag_seen e) st4
              in Inr (MSG (Configured 1) st5))))"

definition config_fpga2 :: "env \<Rightarrow> state \<Rightarrow> fault + state" where
  "config_fpga2 e st =
     (case fpga2_file e of
        None \<Rightarrow> Inr (MSG (CouldNotOpen 2) st)
      | Some contents \<Rightarrow>
          (let file_size = length contents in
           if new_throws e file_size then Inl BadAlloc
           else
             (let st1 = st\<lparr>binary_data := Some contents, binary_data_size := of_nat file_size\<rparr>;
                  st2 = MSG (BinaryFileSize 2 (binary_data_size st1)) st1;
                  st3 = CLR_GPIO_PIN FPGA2_NCE_GPIO_PIN st2;
                  st4 = emit Sleep1ms st3;
                  st5 = transfer_data (exit_flag_seen e) st4
              in Inr (MSG (Configured 2) st5))))"

text \<open>\<open>if (binary_data) { delete [] binary_data; }\<close>, as \<open>main\<close> has it twice.\<close>

definition free_binary_data :: "state \<Rightarrow> state" where
  "free_binary_data st =
     (case binary_data st of None \<Rightarrow> st | Some buf \<Rightarrow> emit DeleteBinaryData st)"

definition close_gpio :: "state \<Rightarrow> state" where
  "close_gpio st =
     (case gpio_port st of
        None \<Rightarrow> st
      | Some m \<Rightarrow>
          (let st1 = CLR_GPIO_PIN DCLK_GPIO_PIN st;
               st2 = CLR_GPIO_PIN DATA0_GPIO_PIN st1;
               st3 = emit Munmap st2;
               st4 = st3\<lparr>gpio_port := None\<rparr>
           in MSG GpioPortClosed st4))"

text \<open>
  The part of \<open>main\<close> under \<open>if (gpio_port)\<close>: the second target exists only in the build
  with \<open>MELBINST_PI_HAT == 0\<close>.
\<close>

definition config_targets :: "env \<Rightarrow> state \<Rightarrow> fault + state" where
  "config_targets e st =
     (case config_fpga1 e st of
        Inl f \<Rightarrow> Inl f
      | Inr st1 \<Rightarrow>
          (case hat e of
             HAT0 \<Rightarrow> config_fpga2 e ((free_binary_data st1)\<lparr>binary_data := None\<rparr>)
           | HAT1 \<Rightarrow> Inr st1))"

text \<open>\<open>main\<close>: the value returned together with the final state, or the fault.\<close>

definition main :: "env \<Rightarrow> fault + (int \<times> state)" where
  "main e =
     (case open_and_setup_gpio e (print_app_info initial_state) of
        Inl f \<Rightarrow> Inl f
      | Inr st1 \<Rightarrow>
          (case print_board_rev_info e st1 of
             Inl f \<Rightarrow> Inl f
           | Inr st2 \<Rightarrow>
               (case (case gpio_port st2 of
                        None \<Rightarrow> Inr st2
                      | Some m \<Rightarrow> config_targets e st2) of
                  Inl f \<Rightarrow> Inl f
                | Inr st3 \<Rightarrow>
                    Inr (0, MSG ConfigCompleted (close_gpio (free_binary_data st3))))))"

section \<open>Vocabulary of the statements\<close>

text \<open>
  A clock pulse is the five writes that set the clock pin followed by the five that
  clear it; a data-bit/clock-pulse pair is the write that drives the data pin to a bit
  followed by one clock pulse. \<open>image_bits\<close> lists the bits of an image in byte order,
  each byte from bit 0 to bit 7.
\<close>

definition dclk_high :: "event list" where
  "dclk_high = replicate 5 (GpioSet (push_bit DCLK_GPIO_PIN 1))"

definition dclk_low :: "event list" where
  "dclk_low = replicate 5 (GpioClr (push_bit DCLK_GPIO_PIN 1))"

definition clock_pulse :: "event list" where
  "clock_pulse = dclk_high @ dclk_low"

definition data_write :: "bool \<Rightarrow> event" where
  "data_write v = (if v then GpioSet (push_bit DATA0_GPIO_PIN 1)
                   else GpioClr (push_bit DATA0_GPIO_PIN 1))"

definition bit_cell :: "bool \<Rightarrow> event list" where
  "bit_cell v = data_write v # clock_pulse"

definition byte_bits :: "u8 \<Rightarrow> bool list" where
  "byte_bits byte = map (bit byte) [0..<8]"

definition image_bits :: "u8 list \<Rightarrow> bool list" where
  "image_bits bs = concat (map byte_bits bs)"

definition cells :: "bool list \<Rightarrow> event list" where
  "cells vs = concat (map bit_cell vs)"

definition pulses :: "nat \<Rightarrow> event list" where
  "pulses n = concat (replicate n clock_pulse)"

text \<open>
  The levels driven onto the data line by a trace: a write to the pin-set register with
  the data pin's bit drives it to 1, such a write to the pin-clear register to 0.
\<close>

fun data0_levels :: "event list \<Rightarrow> bool list" where
  "data0_levels [] = []"
| "data0_levels (GpioSet v # evs) =
     (if bit v DATA0_GPIO_PIN then True # data0_levels evs else data0_levels evs)"
| "data0_levels (GpioClr v # evs) =
     (if bit v DATA0_GPIO_PIN then False # data0_levels evs else data0_levels evs)"
| "data0_levels (ev # evs) = data0_levels evs"

text \<open>
  The number of bytes (or tail pulses) that a loop gets through when it starts with the
  flag read \<open>p\<close> times and has \<open>n\<close> iterations to go; \<open>sig\<close> is the first read that finds
  the flag set.
\<close>

definition rounds :: "nat option \<Rightarrow> nat \<Rightarrow> nat \<Rightarrow> nat" where
  "rounds sig p n = (case sig of None \<Rightarrow> n | Some t \<Rightarrow> min n (t - p))"

text \<open>A state that holds a loaded image, and environments for the concrete runs.\<close>

definition loaded :: "u8 list \<Rightarrow> state" where
  "loaded bs = initial_state\<lparr>binary_data := Some bs, binary_data_size := of_nat (length bs)\<rparr>"

definition never_throws :: "nat \<Rightarrow> bool" where
  "never_throws n = False"

definition example_env :: env where
  "example_env = \<lparr>hat = HAT0, mmap_result = Some zero_page, rd_value_1 = 0, rd_value_2 = 0,
                  fpga1_file = Some [0x01], fpga2_file = None, new_throws = never_throws,
                  sigint = None, lag = Some 0\<rparr>"

definition cancelled_env :: env where
  "cancelled_env = example_env\<lparr>sigint := Some 0\<rparr>"

definition empty_env :: env where
  "empty_env = example_env\<lparr>fpga1_file := Some []\<rparr>"

section \<open>Bit-field lemmas\<close>

lemma seven_mask: "(7::u32) = mask 3"
  by (simp add: mask_eq_exp_minus_1)

lemma three_mask: "(3::u32) = mask 2"
  by (simp add: mask_eq_exp_minus_1)

lemma field_after_clear:
  "take_bit k (drop_bit s ((w::u32) AND NOT (push_bit s (mask k)))) = 0"
  by (rule bit_eqI) (simp add: bit_simps)

lemma field_other_clear:
  "s' + j \<le> s \<or> s + k \<le> s' \<Longrightarrow>
   take_bit j (drop_bit s' ((w::u32) AND NOT (push_bit s (mask k)))) = take_bit j (drop_bit s' w)"
  by (rule bit_eqI) (auto simp add: bit_simps dest: bit_imp_le_length)

lemma field_other_or:
  "s' + j \<le> s \<or> s < s' \<Longrightarrow>
   take_bit j (drop_bit s' ((w::u32) OR push_bit s 1)) = take_bit j (drop_bit s' w)"
  by (rule bit_eqI) (auto simp add: bit_simps)

lemma field_after_or:
  "s + 3 \<le> 32 \<Longrightarrow>
   take_bit 3 (drop_bit s ((w::u32) OR push_bit s 1)) = take_bit 3 (drop_bit s w) OR 1"
  by (rule bit_eqI) (auto simp add: bit_simps)

lemma field_set_after_clear:
  "s + 2 \<le> 32 \<Longrightarrow>
   take_bit 2 (drop_bit s (((w::u32) AND NOT (push_bit s (mask 2))) OR push_bit s 1)) = 1"
  by (rule bit_eqI) (auto simp add: bit_simps)

section \<open>Pin Controller: proofs\<close>

lemma pull_in_page_fsel_in_page:
  "0 \<le> pin \<Longrightarrow> pull_reg_offset pin < page_words \<Longrightarrow> fsel_reg_offset pin < page_words"
  by (simp add: pull_reg_offset_def fsel_reg_offset_def page_words_def PAGE_SIZE_def
      GPIO_PULL_BASE_OFFSET_def)

lemma fsel_pull_distinct:
  "0 \<le> pin \<Longrightarrow> fsel_reg_offset pin \<noteq> pull_reg_offset pin"
  by (simp add: pull_reg_offset_def fsel_reg_offset_def GPIO_PULL_BASE_OFFSET_def)

lemma fsel_bits_bound: "0 \<le> pin \<Longrightarrow> fsel_bits_offset pin + 3 \<le> 32"
  by (simp add: fsel_bits_offset_def)

lemma pull_bits_bound: "0 \<le> pin \<Longrightarrow> pull_bits_offset pin + 2 \<le> 32"
  by (simp add: pull_bits_offset_def)

lemma fsel_fields_disjoint:
  assumes "0 \<le> pin" "0 \<le> q" "q \<noteq> pin" "fsel_reg_offset q = fsel_reg_offset pin"
  shows "fsel_bits_offset q + 3 \<le> fsel_bits_offset pin \<or> fsel_bits_offset pin + 3 \<le> fsel_bits_offset q"
proof -
  from assms have "q div 10 = pin div 10" by (simp add: fsel_reg_offset_def)
  with assms have "q mod 10 \<noteq> pin mod 10" by (metis div_mult_mod_eq)
  then show ?thesis by (simp add: fsel_bits_offset_def) arith
qed

lemma fsel_after_clear: "take_bit 3 (drop_bit s ((w::u32) AND NOT (push_bit s 7))) = 0"
  using field_after_clear [of 3 s w] by (simp only: seven_mask)

lemma fsel_other_clear:
  "s' + 3 \<le> s \<or> s + 3 \<le> s' \<Longrightarrow>
   take_bit 3 (drop_bit s' ((w::u32) AND NOT (push_bit s 7))) = take_bit 3 (drop_bit s' w)"
  using field_other_clear [of s' 3 s 3 w] by (simp only: seven_mask)

lemma pull_set_after_clear:
  "s + 2 \<le> 32 \<Longrightarrow>
   take_bit 2 (drop_bit s (((w::u32) AND NOT (push_bit s 3)) OR push_bit s 1)) = 1"
  using field_set_after_clear [of s w] by (simp only: three_mask)

text \<open>
  What the output branch does for every prior register value: it ORs 1 into the pin's
  field and changes nothing else.
\<close>

lemma init_gpio_pin_output_general:
  assumes "0 \<le> pin" "fsel_reg_offset pin < page_words"
  shows "\<exists>m'. init_gpio_pin pin True m = Some m'
           \<and> fsel_field m' pin = fsel_field m pin OR 1
           \<and> (\<forall>q. 0 \<le> q \<and> q \<noteq> pin \<and> fsel_reg_offset q = fsel_reg_offset pin
                  \<longrightarrow> fsel_field m' q = fsel_field m q)
           \<and> (\<forall>i. i \<noteq> fsel_reg_offset pin \<longrightarrow> m' i = m i)"
proof -
  let ?m' = "m(fsel_reg_offset pin := m (fsel_reg_offset pin) OR push_bit (fsel_bits_offset pin) 1)"
  have eq: "init_gpio_pin pin True m = Some ?m'"
    using assms by (simp add: init_gpio_pin_def)
  have own: "fsel_field ?m' pin = fsel_field m pin OR 1"
    by (simp only: fsel_field_def fun_upd_same field_after_or [OF fsel_bits_bound [OF assms(1)]])
  have others: "fsel_field ?m' q = fsel_field m q"
    if "0 \<le> q \<and> q \<noteq> pin \<and> fsel_reg_offset q = fsel_reg_offset pin" for q
  proof -
    from that fsel_fields_disjoint [of pin q] assms(1)
    have d: "fsel_bits_offset q + 3 \<le> fsel_bits_offset pin \<or> fsel_bits_offset pin < fsel_bits_offset q"
      by auto
    from that have r: "fsel_reg_offset q = fsel_reg_offset pin" by simp
    show ?thesis
      by (simp only: fsel_field_def r fun_upd_same field_other_or [OF d])
  qed
  have rest: "?m' i = m i" if "i \<noteq> fsel_reg_offset pin" for i
    using that by simp
  show ?thesis using eq own others rest by blast
qed

lemma pull_reg_below_16:
  "0 \<le> pin \<Longrightarrow> pin < 16 \<Longrightarrow> pull_control_reg pin = pull_reg_offset pin"
  by (simp add: pull_control_reg_def pull_reg_offset_def)

text \<open>
  Claim C7, as the code has it by design. For every pin that is not negative and whose
  registers lie in the mapped page, \<open>_init_gpio_pin(pin, false)\<close> leaves the pin's 3-bit
  function-select field at 0 ("input") and leaves the function-select field of every
  other pin of the same register as it was; for a pin below 16 it leaves the pin's
  field in its pull-control register at 1 ("pull-up"): the selection is made and is
  not cleared again. Nothing is stated about the pull-control field of a pin from 16
  on.
\<close>

theorem init_gpio_pin_input_pull_up:
  assumes "0 \<le> pin" "pull_reg_offset pin < page_words"
  shows "\<exists>m'. init_gpio_pin pin False m = Some m'
           \<and> fsel_field m' pin = 0
           \<and> (\<forall>q. 0 \<le> q \<and> q \<noteq> pin \<and> fsel_reg_offset q = fsel_reg_offset pin
                  \<longrightarrow> fsel_field m' q = fsel_field m q)
           \<and> (pin < 16 \<longrightarrow> pull_field m' pin = 1)"
proof -
  let ?f = "fsel_reg_offset pin" and ?p = "pull_reg_offset pin"
  let ?m1 = "m(?f := m ?f AND NOT (push_bit (fsel_bits_offset pin) 7))"
  let ?m2 = "?m1(?p := ?m1 ?p AND NOT (push_bit (pull_bits_offset pin) 3))"
  let ?m3 = "?m2(?p := ?m2 ?p OR push_bit (pull_bits_offset pin) 1)"
  have inpage: "?f < page_words"
    using assms by (rule pull_in_page_fsel_in_page)
  have ne: "?f \<noteq> ?p"
    using assms(1) by (rule fsel_pull_distinct)
  have eq: "init_gpio_pin pin False m = Some ?m3"
    using assms inpage by (simp add: init_gpio_pin_def Let_def)
  have freg: "?m3 ?f = m ?f AND NOT (push_bit (fsel_bits_offset pin) 7)"
    using ne by (simp only: fun_upd_apply if_False if_True refl)
  have preg: "?m3 ?p = (m ?p AND NOT (push_bit (pull_bits_offset pin) 3))
                         OR push_bit (pull_bits_offset pin) 1"
    using ne ne [symmetric] by (simp only: fun_upd_apply if_False if_True refl)
  have own: "fsel_field ?m3 pin = 0"
    by (simp only: fsel_field_def freg fsel_after_clear)
  have others: "fsel_field ?m3 q = fsel_field m q"
    if "0 \<le> q \<and> q \<noteq> pin \<and> fsel_reg_offset q = fsel_reg_offset pin" for q
  proof -
    from that fsel_fields_disjoint [of pin q] assms(1)
    have d: "fsel_bits_offset q + 3 \<le> fsel_bits_offset pin \<or> fsel_bits_offset pin + 3 \<le> fsel_bits_offset q"
      by auto
    from that have r: "fsel_reg_offset q = fsel_reg_offset pin" by simp
    show ?thesis
      by (simp only: fsel_field_def r freg fsel_other_clear [OF d])
  qed
  have pull: "pull_field ?m3 pin = 1" if "pin < 16"
    by (simp only: pull_field_def pull_reg_below_16 [OF assms(1) that] preg
        pull_set_after_clear [OF pull_bits_bound [OF assms(1)]])
  show ?thesis using eq own others pull by blast
qed

text \<open>
  The statement at pin 5 on a page of zeros, with pin 6 as the other pin of the same
  function-select register.
\<close>

theorem init_gpio_pin_input_pull_up_witness:
  "\<exists>m'. init_gpio_pin 5 False zero_page = Some m'
        \<and> fsel_field m' 5 = 0 \<and> fsel_field m' 6 = fsel_field zero_page 6 \<and> pull_field m' 5 = 1"
proof -
  have a: "(0::int) \<le> 5" by simp
  have b: "pull_reg_offset 5 < page_words"
    by (simp add: pull_reg_offset_def page_words_def PAGE_SIZE_def GPIO_PULL_BASE_OFFSET_def)
  have c: "(0::int) \<le> 6 \<and> (6::int) \<noteq> 5 \<and> fsel_reg_offset 6 = fsel_reg_offset 5"
    by (simp add: fsel_reg_offset_def)
  have d: "(5::int) < 16" by simp
  from init_gpio_pin_input_pull_up [OF a b, of zero_page] c d show ?thesis by blast
qed

text \<open>
  Claim C7 as stated fails: after \<open>_init_gpio_pin(5, false)\<close> on a page of zeros, pin 5's
  field in its pull-control register (word 57, bits 10 and 11) is 1, not the neutral
  value 0.
\<close>

theorem init_gpio_pin_input_pull_not_neutral:
  "init_gpio_pin 5 False zero_page = Some (zero_page(57 := 1024))
   \<and> pull_control_reg 5 = 57
   \<and> pull_field (zero_page(57 := 1024)) 5 = 1
   \<and> pull_field (zero_page(57 := 1024)) 5 \<noteq> 0"
  by (simp add: init_gpio_pin_def zero_page_def pull_field_def fsel_reg_offset_def
      fsel_bits_offset_def pull_reg_offset_def pull_control_reg_def pull_bits_offset_def
      page_words_def PAGE_SIZE_def GPIO_PULL_BASE_OFFSET_def Let_def fun_eq_iff)

text \<open>
  From pin 16 on the code does not reach the pin's pull-control register: line 220 adds
  the byte stride \<open>(pin / 16) * 4\<close> to a word index. For pin 20
  (\<open>BOARD_REV_GPIO_PIN_1\<close>) it writes word 61 and leaves word 58, the register of the
  pins 16 to 31, as it was, so the pin's pull field stays 0.
\<close>

lemma init_gpio_pin_pin20_misses_pull_register:
  "init_gpio_pin 20 False zero_page = Some (zero_page(61 := 256))
   \<and> pull_reg_offset 20 = 61
   \<and> pull_control_reg 20 = 58
   \<and> pull_field (zero_page(61 := 256)) 20 = 0"
  by (simp add: init_gpio_pin_def zero_page_def pull_field_def fsel_reg_offset_def
      fsel_bits_offset_def pull_reg_offset_def pull_control_reg_def pull_bits_offset_def
      page_words_def PAGE_SIZE_def GPIO_PULL_BASE_OFFSET_def Let_def fun_eq_iff)

text \<open>
  Claim C8 at a failing input. With pin 3 (\<open>DCLK_GPIO_PIN\<close>) in an alternate function,
  its field being binary 100 (register 0 holding \<open>0x800\<close>), \<open>_init_gpio_pin(3, true)\<close>
  leaves the field at binary 101, not at the "output" code 001.
\<close>

theorem init_gpio_pin_output_keeps_alt_bits:
  "init_gpio_pin 3 True (zero_page(0 := 0x800)) = Some (zero_page(0 := 0xA00))
   \<and> fsel_field (zero_page(0 := 0x800)) 3 = 4
   \<and> fsel_field (zero_page(0 := 0xA00)) 3 = 5"
  by (simp add: init_gpio_pin_def zero_page_def fsel_field_def fsel_reg_offset_def
      fsel_bits_offset_def page_words_def PAGE_SIZE_def fun_eq_iff)

section \<open>Serial Transfer Engine: proofs\<close>

lemma SET_DCLK_PIN_eq: "SET_DCLK_PIN st = st\<lparr>trace := trace st @ dclk_high\<rparr>"
  by (simp add: SET_DCLK_PIN_def NUM_CONSECUTIVE_GPIO_WRITES_def SET_GPIO_PIN_def emit_def
      dclk_high_def upt_rec [of 0] upt_rec [of 1] upt_rec [of 2] upt_rec [of 3] upt_rec [of 4]
      numeral_eq_Suc)

lemma CLR_DCLK_PIN_eq: "CLR_DCLK_PIN st = st\<lparr>trace := trace st @ dclk_low\<rparr>"
  by (simp add: CLR_DCLK_PIN_def NUM_CONSECUTIVE_GPIO_WRITES_def CLR_GPIO_PIN_def emit_def
      dclk_low_def upt_rec [of 0] upt_rec [of 1] upt_rec [of 2] upt_rec [of 3] upt_rec [of 4]
      numeral_eq_Suc)

lemma low_bit_test: "((drop_bit i (byte::u8)) AND 0x01 \<noteq> 0) = bit byte i"
  by (simp add: bit_iff_odd_drop_bit and_one_eq mod_2_eq_odd)

lemma send_bit_eq: "send_bit byte i st = st\<lparr>trace := trace st @ bit_cell (bit byte i)\<rparr>"
  by (simp add: send_bit_def Let_def low_bit_test SET_DCLK_PIN_eq CLR_DCLK_PIN_eq
      SET_GPIO_PIN_def CLR_GPIO_PIN_def emit_def bit_cell_def data_write_def clock_pulse_def)

lemma fold_send_bit:
  "fold (send_bit byte) is st = st\<lparr>trace := trace st @ cells (map (bit byte) is)\<rparr>"
  by (induction "is" arbitrary: st) (simp_all add: send_bit_eq cells_def)

lemma send_byte_eq: "send_byte byte st = st\<lparr>trace := trace st @ cells (byte_bits byte)\<rparr>"
  by (simp add: send_byte_def byte_bits_def fold_send_bit)

lemma cells_append: "cells (xs @ ys) = cells xs @ cells ys"
  by (simp add: cells_def)

lemma image_bits_Cons: "image_bits (b # bs) = byte_bits b @ image_bits bs"
  by (simp add: image_bits_def)

lemma image_bits_Nil: "image_bits [] = []"
  by (simp add: image_bits_def)

lemma length_image_bits: "length (image_bits bs) = 8 * length bs"
  by (induction bs) (simp_all add: image_bits_def byte_bits_def)

lemma rounds_stop: "signalled sig p \<Longrightarrow> rounds sig p n = 0"
  by (auto simp add: signalled_def rounds_def split: option.splits)

lemma rounds_go: "\<not> signalled sig p \<Longrightarrow> rounds sig p (Suc n) = Suc (rounds sig (Suc p) n)"
  by (auto simp add: signalled_def rounds_def split: option.splits)

lemma rounds_zero: "rounds sig p 0 = 0"
  by (simp add: rounds_def split: option.splits)

lemma data_loop_eq:
  "data_loop sig bs st =
     st\<lparr>polls := polls st + Suc (rounds sig (polls st) (length bs)),
        trace := trace st @ cells (image_bits (take (rounds sig (polls st) (length bs)) bs))\<rparr>"
proof (induction bs arbitrary: st)
  case Nil
  show ?case
    by (simp add: read_exit_flag_def rounds_zero image_bits_Nil cells_def)
next
  case (Cons b bs)
  show ?case
  proof (cases "signalled sig (polls st)")
    case True
    then show ?thesis
      by (simp add: read_exit_flag_def rounds_stop image_bits_Nil cells_def)
  next
    case False
    then show ?thesis
      by (simp add: read_exit_flag_def rounds_go Cons.IH send_byte_eq image_bits_Cons cells_append)
  qed
qed

lemma pulses_Suc: "pulses (Suc n) = clock_pulse @ pulses n"
  by (simp add: pulses_def)

lemma dclk_loop_eq:
  "dclk_loop sig c st =
     st\<lparr>polls := polls st + Suc (rounds sig (polls st) c),
        trace := trace st @ pulses (rounds sig (polls st) c)\<rparr>"
proof (induction c arbitrary: st)
  case 0
  show ?case
    by (simp add: read_exit_flag_def rounds_zero pulses_def)
next
  case (Suc c)
  show ?case
  proof (cases "signalled sig (polls st)")
    case True
    then show ?thesis
      by (simp add: read_exit_flag_def rounds_stop pulses_def)
  next
    case False
    then show ?thesis
      by (simp add: read_exit_flag_def rounds_go Suc.IH SET_DCLK_PIN_eq CLR_DCLK_PIN_eq
          pulses_Suc clock_pulse_def)
  qed
qed

lemma transfer_data_eq:
  "transfer_data sig st =
     st\<lparr>polls := polls st + Suc (rounds sig (polls st) (length (bitstream st)))
                 + Suc (rounds sig (polls st + Suc (rounds sig (polls st) (length (bitstream st)))) 10),
        trace := trace st
                 @ cells (image_bits (take (rounds sig (polls st) (length (bitstream st))) (bitstream st)))
                 @ pulses (rounds sig (polls st + Suc (rounds sig (polls st) (length (bitstream st)))) 10)\<rparr>"
  by (simp add: transfer_data_def data_loop_eq dclk_loop_eq)

lemma rounds_all: "\<not> signalled sig (p + n) \<Longrightarrow> rounds sig p n = n"
  by (auto simp add: signalled_def rounds_def split: option.splits)

lemma not_signalled_earlier: "\<not> signalled sig q \<Longrightarrow> p \<le> q \<Longrightarrow> \<not> signalled sig p"
  by (auto simp add: signalled_def split: option.splits)

text \<open>No read finds the flag set before the handler has run.\<close>

lemma not_seen_before_signal:
  "\<not> signalled arrival p \<Longrightarrow> \<not> signalled (seen_from arrival delay) p"
  by (auto simp add: signalled_def seen_from_def split: option.splits)

lemma bitstream_loaded:
  "binary_data st = Some bs \<Longrightarrow> unat (binary_data_size st) = length bs \<Longrightarrow> bitstream st = bs"
  by (simp add: bitstream_def)

lemma data0_levels_append: "data0_levels (xs @ ys) = data0_levels xs @ data0_levels ys"
  by (induction xs rule: data0_levels.induct) simp_all

lemma data0_levels_clock_pulse: "data0_levels clock_pulse = []"
  by (simp add: clock_pulse_def dclk_high_def dclk_low_def DCLK_GPIO_PIN_def DATA0_GPIO_PIN_def
      bit_simps numeral_eq_Suc)

lemma data0_levels_bit_cell: "data0_levels (bit_cell v) = [v]"
  by (simp add: bit_cell_def data_write_def data0_levels_clock_pulse DATA0_GPIO_PIN_def bit_simps)

lemma data0_levels_cells: "data0_levels (cells vs) = vs"
  by (induction vs) (simp_all add: cells_def data0_levels_append data0_levels_bit_cell)

lemma data0_levels_pulses: "data0_levels (pulses n) = []"
  by (induction n) (simp_all add: pulses_def data0_levels_append data0_levels_clock_pulse)

lemma rounds_None: "rounds None p n = n"
  by (simp add: rounds_def)

lemma upt8: "[0..<8] = [0, 1, 2, 3, 4, 5, 6, 7]"
  by code_simp

lemma byte_bits_B2: "byte_bits 0xB2 = [False, True, False, False, True, True, False, True]"
  by (simp add: byte_bits_def upt8 bit_iff_odd_drop_bit drop_bit_eq_div)

text \<open>
  Claim C1. For every non-empty image, when no read of \<open>exit_flag\<close> during the transfer
  finds it set, \<open>_transfer_data\<close> emits one data-bit/clock-pulse pair per bit of the
  image, \<open>8 * length bs\<close> pairs, followed by 10 clock pulses, and returns after
  \<open>length bs + 12\<close> reads of the flag.
\<close>

theorem transfer_data_complete:
  assumes "binary_data st = Some bs"
      and "unat (binary_data_size st) = length bs"
      and "bs \<noteq> []"
      and "\<not> signalled sig (polls st + length bs + 11)"
  shows "transfer_data sig st =
           st\<lparr>polls := polls st + length bs + 12,
              trace := trace st @ cells (image_bits bs) @ pulses 10\<rparr>
         \<and> length (image_bits bs) = 8 * length bs"
proof -
  have img: "bitstream st = bs"
    using assms(1,2) by (rule bitstream_loaded)
  have "\<not> signalled sig (polls st + length bs)"
    using assms(4) by (rule not_signalled_earlier) simp
  then have r1: "rounds sig (polls st) (length bs) = length bs"
    by (rule rounds_all)
  have "\<not> signalled sig (Suc (polls st + length bs) + 10)"
    using assms(4) by (rule not_signalled_earlier) simp
  then have r2: "rounds sig (Suc (polls st + length bs)) 10 = 10"
    by (rule rounds_all)
  show ?thesis
    by (simp add: transfer_data_eq img r1 r2 length_image_bits)
qed

text \<open>
  The statement for the one-byte image \<open>0x01\<close> and no signal.
\<close>

theorem transfer_data_complete_witness:
  "transfer_data None (loaded [0x01]) =
     (loaded [0x01])\<lparr>polls := 13,
        trace := cells [True, False, False, False, False, False, False, False] @ pulses 10\<rparr>"
proof -
  have a: "binary_data (loaded [0x01]) = Some [0x01]"
    by (simp add: loaded_def)
  have b: "unat (binary_data_size (loaded [0x01])) = length [0x01 :: u8]"
    by (simp add: loaded_def)
  have c: "[0x01 :: u8] \<noteq> []"
    by simp
  have d: "\<not> signalled None (polls (loaded [0x01]) + length [0x01 :: u8] + 11)"
    by (simp add: signalled_def)
  have e: "image_bits [0x01] = [True, False, False, False, False, False, False, False]"
    by (simp add: image_bits_def byte_bits_def upt8 bit_iff_odd_drop_bit drop_bit_eq_div)
  from transfer_data_complete [OF a b c d] show ?thesis
    by (simp add: e loaded_def initial_state_def)
qed

text \<open>
  When the read that precedes byte \<open>k + 1\<close> is the first to find the flag set,
  \<open>_transfer_data\<close> emits the pairs of the bytes up to byte \<open>k\<close> and nothing else: the
  tail loop adds no event to what the data loop emitted.
\<close>

lemma stops_when_next_read_sees_flag:
  assumes "binary_data st = Some bs"
      and "unat (binary_data_size st) = length bs"
      and "k < length bs"
      and "sig = Some (polls st + k + 1)"
  shows "trace (transfer_data sig st) = trace st @ cells (image_bits (take (Suc k) bs))
         \<and> length (image_bits (take (Suc k) bs)) = 8 * (k + 1)
         \<and> trace (transfer_data sig st) = trace (data_loop sig bs st)"
proof -
  have img: "bitstream st = bs"
    using assms(1,2) by (rule bitstream_loaded)
  have r1: "rounds sig (polls st) (length bs) = Suc k"
    using assms(3,4) by (simp add: rounds_def)
  have r2: "rounds sig (Suc (Suc (polls st + k))) 10 = 0"
    using assms(4) by (simp add: rounds_def)
  have len: "length (image_bits (take (Suc k) bs)) = 8 * (k + 1)"
    using assms(3) by (simp add: length_image_bits)
  show ?thesis
    using len by (simp add: transfer_data_eq data_loop_eq img r1 r2 pulses_def)
qed

text \<open>
  Claim C3 at a failing input. The image is \<open>0x01, 0xFF\<close> and the handler runs during
  byte 0, after the first read of the flag and before the second. \<open>exit_flag\<close> being a
  plain \<open>bool\<close>, a run in which no later read finds it set is among those the source
  allows (\<open>lag = None\<close>); there the engine sends byte 1 and the ten tail pulses as well.
  Only when the very next read sees the handler's write (\<open>lag = Some 0\<close>) does it stop
  after byte 0.
\<close>

theorem transfer_data_signal_not_seen:
  "seen_from (Some 1) None = None
   \<and> trace (transfer_data (seen_from (Some 1) None) (loaded [0x01, 0xFF]))
       = cells (image_bits [0x01, 0xFF]) @ pulses 10
   \<and> trace (transfer_data (seen_from (Some 1) (Some 0)) (loaded [0x01, 0xFF]))
       = cells (image_bits [0x01])"
  by (simp add: seen_from_def transfer_data_eq bitstream_def loaded_def initial_state_def
      rounds_def pulses_def)

text \<open>
  Claim C2. For one bit the engine writes the data pin, then sets the clock, then clears
  it; for one byte it does so for the bits 0 to 7 in this order; without a signal the
  levels driven onto the data line are the bits of the image, each byte from bit 0 to
  bit 7. For the single byte \<open>0b10110010\<close> the first level is 0 and the last is 1.
\<close>

theorem lsb_first_bit_order:
  "trace (send_bit byte i st) = trace st @ data_write (bit byte i) # dclk_high @ dclk_low
   \<and> trace (send_byte byte st) = trace st @ cells (map (bit byte) [0, 1, 2, 3, 4, 5, 6, 7])
   \<and> data0_levels (trace (transfer_data None st)) = data0_levels (trace st) @ image_bits (bitstream st)
   \<and> data0_levels (trace (transfer_data None (loaded [0xB2])))
       = [False, True, False, False, True, True, False, True]
   \<and> hd (data0_levels (trace (transfer_data None (loaded [0xB2])))) = False
   \<and> last (data0_levels (trace (transfer_data None (loaded [0xB2])))) = True"
proof -
  have one: "trace (send_bit byte i st) = trace st @ data_write (bit byte i) # dclk_high @ dclk_low"
    by (simp add: send_bit_eq bit_cell_def clock_pulse_def)
  have two: "trace (send_byte byte st) = trace st @ cells (map (bit byte) [0, 1, 2, 3, 4, 5, 6, 7])"
    by (simp add: send_byte_eq byte_bits_def upt8)
  have three: "data0_levels (trace (transfer_data None st'))
                 = data0_levels (trace st') @ image_bits (bitstream st')" for st'
    by (simp add: transfer_data_eq rounds_None data0_levels_append data0_levels_cells
        data0_levels_pulses)
  have img: "bitstream (loaded [0xB2]) = [0xB2]"
    by (simp add: bitstream_def loaded_def)
  have tr0: "trace (loaded [0xB2]) = []"
    by (simp add: loaded_def initial_state_def)
  have four: "data0_levels (trace (transfer_data None (loaded [0xB2])))
       = [False, True, False, False, True, True, False, True]"
    by (simp add: three img tr0 image_bits_def byte_bits_B2)
  show ?thesis
    using one two three [of st] by (simp add: four)
qed

section \<open>Board Revision Detector and Orchestrator: proofs\<close>

lemma RD_GPIO_PIN_bit: "RD_GPIO_PIN rd pin = (if bit rd pin then 1 else 0)"
  by (simp add: RD_GPIO_PIN_def and_one_eq bit_iff_odd_drop_bit mod_2_eq_odd)

text \<open>
  Claim C6. For all values of the two strap reads the code is
  \<open>pin1 | (pin2 << 1)\<close> (the source adds, which is the same for two single bits), and
  the switch maps code 0 to Rev D, 1 to Rev B, 2 to Rev C and 3 to Rev A; with
  \<open>gpio_rd_reg\<close> set, \<open>_print_board_rev_info\<close> prints the label for the two pin values.
\<close>

theorem board_rev_mapping:
  "board_rev_code rd1 rd2 =
     RD_GPIO_PIN rd1 BOARD_REV_GPIO_PIN_1 OR push_bit 1 (RD_GPIO_PIN rd2 BOARD_REV_GPIO_PIN_2)
   \<and> board_rev_code rd1 rd2 =
       (if bit rd2 21 then (if bit rd1 20 then 3 else 2) else (if bit rd1 20 then 1 else 0))
   \<and> board_rev_switch 0 st = MSG (DetectedBoardRev RevD) st
   \<and> board_rev_switch 1 st = MSG (DetectedBoardRev RevB) st
   \<and> board_rev_switch 2 st = MSG (DetectedBoardRev RevC) st
   \<and> board_rev_switch 3 st = MSG (DetectedBoardRev RevA) st
   \<and> print_board_rev_info e (st\<lparr>gpio_rd_reg := Some r\<rparr>) =
       Inr (MSG (DetectedBoardRev
                  (if bit (rd_value_2 e) 21
                   then (if bit (rd_value_1 e) 20 then RevA else RevC)
                   else (if bit (rd_value_1 e) 20 then RevB else RevD)))
              (st\<lparr>gpio_rd_reg := Some r\<rparr>))"
  by (simp add: board_rev_code_def RD_GPIO_PIN_bit board_rev_switch_def print_board_rev_info_def
      BOARD_REV_GPIO_PIN_1_def BOARD_REV_GPIO_PIN_2_def)

text \<open>
  Claim C5 at its failing input. When the register page cannot be mapped,
  \<open>_open_and_setup_gpio\<close> reports the error and leaves \<open>gpio_rd_reg\<close> null; \<open>main\<close> then
  calls \<open>_print_board_rev_info\<close>, which reads the strap pins through that pointer. The
  run ends in the null read and never reaches \<open>return 0\<close>.
\<close>

theorem main_unmapped_faults:
  "main (e\<lparr>mmap_result := None\<rparr>) = Inl NullDereference
   \<and> open_and_setup_gpio (e\<lparr>mmap_result := None\<rparr>) st = Inr (MSG GpioOpenSetupError st)
   \<and> main (example_env\<lparr>mmap_result := None\<rparr>) = Inl NullDereference"
  by (simp add: main_def open_and_setup_gpio_def print_board_rev_info_def print_app_info_def
      MSG_def emit_def initial_state_def)

lemma init_pins_total: "\<exists>m'. init_pins h m = Some m'"
  by (simp add: init_pins_def init_gpio_pin_def Let_def fsel_reg_offset_def pull_reg_offset_def
      page_words_def PAGE_SIZE_def GPIO_PULL_BASE_OFFSET_def NCONFIG_GPIO_PIN_def
      FPGA2_NCE_GPIO_PIN_def DCLK_GPIO_PIN_def BOARD_REV_GPIO_PIN_1_def BOARD_REV_GPIO_PIN_2_def)

lemma count_clock_pulse: "count_list clock_pulse DeleteBinaryData = 0"
  by (simp add: clock_pulse_def dclk_high_def dclk_low_def)

lemma count_cells: "count_list (cells vs) DeleteBinaryData = 0"
  by (induction vs) (simp_all add: cells_def bit_cell_def data_write_def count_clock_pulse)

lemma count_pulses: "count_list (pulses n) DeleteBinaryData = 0"
  by (induction n) (simp_all add: pulses_def count_clock_pulse)

text \<open>
  What the engine and the steps around it leave alone: the register pointers, the buffer
  pointer, and the number of \<open>delete []\<close> events.
\<close>

lemma transfer_data_frame:
  "gpio_port (transfer_data sig st) = gpio_port st
   \<and> gpio_rd_reg (transfer_data sig st) = gpio_rd_reg st
   \<and> binary_data (transfer_data sig st) = binary_data st
   \<and> (\<exists>evs. trace (transfer_data sig st) = trace st @ evs \<and> count_list evs DeleteBinaryData = 0)"
  by (simp add: transfer_data_eq count_cells count_pulses)

lemma config_fpga1_result:
  assumes "fpga1_file e = None \<or> (\<exists>c. fpga1_file e = Some c \<and> \<not> new_throws e (length c))"
  shows "\<exists>st' evs. config_fpga1 e st = Inr st'
           \<and> gpio_port st' = gpio_port st
           \<and> binary_data st' = (case fpga1_file e of None \<Rightarrow> binary_data st | Some c \<Rightarrow> Some c)
           \<and> trace st' = trace st @ evs \<and> count_list evs DeleteBinaryData = 0"
proof (cases "fpga1_file e")
  case None
  then show ?thesis
    by (simp add: config_fpga1_def MSG_def emit_def)
next
  case (Some c)
  with assms have ok: "\<not> new_throws e (length c)" by simp
  let ?st4 = "emit Sleep1ms (SET_GPIO_PIN NCONFIG_GPIO_PIN
                (MSG (BinaryFileSize 1 (of_nat (length c)))
                  (st\<lparr>binary_data := Some c, binary_data_size := of_nat (length c)\<rparr>)))"
  have eq: "config_fpga1 e st = Inr (MSG (Configured 1) (transfer_data (exit_flag_seen e) ?st4))"
    using Some ok by (simp add: config_fpga1_def Let_def)
  from transfer_data_frame [of "exit_flag_seen e" ?st4]
  obtain evs where fr: "gpio_port (transfer_data (exit_flag_seen e) ?st4) = gpio_port ?st4"
      "binary_data (transfer_data (exit_flag_seen e) ?st4) = binary_data ?st4"
      "trace (transfer_data (exit_flag_seen e) ?st4) = trace ?st4 @ evs"
      "count_list evs DeleteBinaryData = 0"
    by blast
  have "trace (MSG (Configured 1) (transfer_data (exit_flag_seen e) ?st4))
          = trace st @ ([Console (BinaryFileSize 1 (of_nat (length c))),
                         GpioSet (push_bit NCONFIG_GPIO_PIN 1), Sleep1ms] @ evs @ [Console (Configured 1)])"
    using fr(3) by (simp add: MSG_def emit_def SET_GPIO_PIN_def)
  moreover have "count_list ([Console (BinaryFileSize 1 (of_nat (length c))),
                         GpioSet (push_bit NCONFIG_GPIO_PIN 1), Sleep1ms] @ evs @ [Console (Configured 1)])
                      DeleteBinaryData = 0"
    using fr(4) by simp
  moreover have "gpio_port (MSG (Configured 1) (transfer_data (exit_flag_seen e) ?st4)) = gpio_port st"
    using fr(1) by (simp add: MSG_def emit_def SET_GPIO_PIN_def)
  moreover have "binary_data (MSG (Configured 1) (transfer_data (exit_flag_seen e) ?st4)) = Some c"
    using fr(2) by (simp add: MSG_def emit_def SET_GPIO_PIN_def)
  ultimately show ?thesis
    using eq Some by (metis option.simps(5))
qed

lemma open_and_setup_gpio_mapped:
  assumes "mmap_result e = Some m"
  shows "\<exists>st' m' evs. open_and_setup_gpio e st = Inr st'
           \<and> gpio_port st' = Some m' \<and> gpio_rd_reg st' = Some (GPIO_RD_OFFSET div 4)
           \<and> binary_data st' = binary_data st
           \<and> trace st' = trace st @ evs \<and> count_list evs DeleteBinaryData = 0"
proof -
  obtain m' where m': "init_pins (hat e) m = Some m'"
    using init_pins_total by blast
  show ?thesis
    using assms m'
    by (simp add: open_and_setup_gpio_def Let_def MSG_def emit_def SET_GPIO_PIN_def CLR_GPIO_PIN_def)
qed

lemma board_rev_switch_frame:
  "gpio_port (board_rev_switch c st) = gpio_port st
   \<and> binary_data (board_rev_switch c st) = binary_data st
   \<and> (\<exists>evs. trace (board_rev_switch c st) = trace st @ evs \<and> count_list evs DeleteBinaryData = 0)"
  by (simp add: board_rev_switch_def MSG_def emit_def)

lemma main_returns_zero: "main e = Inr r \<Longrightarrow> fst r = 0"
  by (auto simp add: main_def split: sum.splits option.splits)

text \<open>
  Claim C9. Whenever \<open>main\<close> returns, it returns 0. In the build with two targets, with
  the page mapped, the first target's step ending either way (file not opened, or loaded
  and transferred) and the second target's file not opened, \<open>main\<close> returns 0; after the
  "could not open" line it frees nothing, clears the clock and data pins, unmaps the
  page and prints the two closing lines; the only \<open>delete []\<close> of the run is the one of
  the first target's buffer, when that was allocated.
\<close>

theorem main_fpga2_unreadable:
  assumes "hat e = HAT0"
      and "mmap_result e = Some m"
      and "fpga2_file e = None"
      and "fpga1_file e = None \<or> (\<exists>c. fpga1_file e = Some c \<and> \<not> new_throws e (length c))"
  shows "(\<exists>st pre. main e = Inr (0, st)
            \<and> trace st = pre @ [Console (CouldNotOpen 2),
                                 GpioClr (push_bit DCLK_GPIO_PIN 1),
                                 GpioClr (push_bit DATA0_GPIO_PIN 1),
                                 Munmap, Console GpioPortClosed, Console ConfigCompleted]
            \<and> count_list pre DeleteBinaryData = (case fpga1_file e of None \<Rightarrow> 0 | Some c \<Rightarrow> 1))
         \<and> (main e' = Inr r \<longrightarrow> fst r = 0)"
proof -
  let ?s0 = "print_app_info initial_state"
  have s0: "binary_data ?s0 = None" "count_list (trace ?s0) DeleteBinaryData = 0"
    by (simp_all add: print_app_info_def MSG_def emit_def initial_state_def)
  from open_and_setup_gpio_mapped [OF assms(2), of ?s0]
  obtain s1 m' ev1 where s1: "open_and_setup_gpio e ?s0 = Inr s1" "gpio_port s1 = Some m'"
      "gpio_rd_reg s1 = Some (GPIO_RD_OFFSET div 4)" "binary_data s1 = binary_data ?s0"
      "trace s1 = trace ?s0 @ ev1" "count_list ev1 DeleteBinaryData = 0"
    by blast
  let ?s2 = "board_rev_switch (board_rev_code (rd_value_1 e) (rd_value_2 e)) s1"
  have p2: "print_board_rev_info e s1 = Inr ?s2"
    using s1(3) by (simp add: print_board_rev_info_def)
  from board_rev_switch_frame [of "board_rev_code (rd_value_1 e) (rd_value_2 e)" s1]
  obtain ev2 where s2: "gpio_port ?s2 = gpio_port s1" "binary_data ?s2 = binary_data s1"
      "trace ?s2 = trace s1 @ ev2" "count_list ev2 DeleteBinaryData = 0"
    by blast
  from config_fpga1_result [OF assms(4), of ?s2]
  obtain s3 ev3 where s3: "config_fpga1 e ?s2 = Inr s3" "gpio_port s3 = gpio_port ?s2"
      "binary_data s3 = (case fpga1_file e of None \<Rightarrow> binary_data ?s2 | Some c \<Rightarrow> Some c)"
      "trace s3 = trace ?s2 @ ev3" "count_list ev3 DeleteBinaryData = 0"
    by blast
  have b3: "binary_data s3 = fpga1_file e"
    using s3(3) s2(2) s1(4) s0(1) by (simp split: option.splits)
  let ?s3' = "(free_binary_data s3)\<lparr>binary_data := None\<rparr>"
  let ?s4 = "MSG (CouldNotOpen 2) ?s3'"
  have c2: "config_fpga2 e ?s3' = Inr ?s4"
    using assms(3) by (simp add: config_fpga2_def)
  have ct: "config_targets e ?s2 = Inr ?s4"
    using s3(1) assms(1) c2 by (simp add: config_targets_def)
  have g2: "gpio_port ?s2 = Some m'"
    using s2(1) s1(2) by simp
  have mn: "main e = Inr (0, MSG ConfigCompleted (close_gpio (free_binary_data ?s4)))"
    using s1(1) p2 g2 ct by (simp add: main_def)
  have f4: "free_binary_data ?s4 = ?s4"
    by (simp add: free_binary_data_def MSG_def emit_def)
  have g4: "gpio_port ?s4 = Some m'"
    using s3(2) g2 by (simp add: free_binary_data_def MSG_def emit_def split: option.splits)
  let ?pre = "trace (free_binary_data s3)"
  have t4: "trace ?s4 = ?pre @ [Console (CouldNotOpen 2)]"
    by (simp add: MSG_def emit_def)
  have fin: "trace (MSG ConfigCompleted (close_gpio ?s4)) =
               ?pre @ [Console (CouldNotOpen 2),
                       GpioClr (push_bit DCLK_GPIO_PIN 1),
                       GpioClr (push_bit DATA0_GPIO_PIN 1),
                       Munmap, Console GpioPortClosed, Console ConfigCompleted]"
    using g4 t4 by (simp add: close_gpio_def Let_def MSG_def emit_def CLR_GPIO_PIN_def)
  have t3: "count_list (trace s3) DeleteBinaryData = 0"
    using s3(4,5) s2(3,4) s1(5,6) s0(2) by simp
  have cnt: "count_list ?pre DeleteBinaryData = (case fpga1_file e of None \<Rightarrow> 0 | Some c \<Rightarrow> 1)"
    using t3 b3 by (simp add: free_binary_data_def emit_def split: option.splits)
  have first: "\<exists>st pre. main e = Inr (0, st)
            \<and> trace st = pre @ [Console (CouldNotOpen 2),
                                 GpioClr (push_bit DCLK_GPIO_PIN 1),
                                 GpioClr (push_bit DATA0_GPIO_PIN 1),
                                 Munmap, Console GpioPortClosed, Console ConfigCompleted]
            \<and> count_list pre DeleteBinaryData = (case fpga1_file e of None \<Rightarrow> 0 | Some c \<Rightarrow> 1)"
    using mn fin cnt by (simp only: f4) blast
  show ?thesis
    using first main_returns_zero [of e' r] by blast
qed

text \<open>
  The statement for a one-byte first image and a second file that cannot be opened.
\<close>

theorem main_fpga2_unreadable_witness:
  "\<exists>st pre. main example_env = Inr (0, st)
      \<and> trace st = pre @ [Console (CouldNotOpen 2),
                           GpioClr (push_bit DCLK_GPIO_PIN 1),
                           GpioClr (push_bit DATA0_GPIO_PIN 1),
                           Munmap, Console GpioPortClosed, Console ConfigCompleted]
      \<and> count_list pre DeleteBinaryData = 1"
proof -
  have a: "hat example_env = HAT0"
    by (simp add: example_env_def)
  have b: "mmap_result example_env = Some zero_page"
    by (simp add: example_env_def)
  have c: "fpga2_file example_env = None"
    by (simp add: example_env_def)
  have d: "fpga1_file example_env = None
           \<or> (\<exists>c. fpga1_file example_env = Some c \<and> \<not> new_throws example_env (length c))"
    by (simp add: example_env_def never_throws_def)
  have f: "fpga1_file example_env = Some [0x01]"
    by (simp add: example_env_def)
  from main_fpga2_unreadable [OF a b c d, THEN conjunct1] show ?thesis
    by (simp add: f)
qed

text \<open>
  Claim C10. For an empty image and no signal before the last read of \<open>exit_flag\<close> (so
  that no read finds it set),
  \<open>_transfer_data\<close> emits no data-bit/clock-pulse pair and the 10 clock pulses of the
  tail, and \<open>_config_fpga1\<close> then prints the "configured" line.
\<close>

theorem config_fpga1_empty_image:
  assumes "fpga1_file e = Some []"
      and "\<not> new_throws e 0"
      and "\<not> signalled (sigint e) (polls st + 11)"
  shows "transfer_data (sigint e) (st\<lparr>binary_data := Some [], binary_data_size := 0\<rparr>) =
           st\<lparr>binary_data := Some [], binary_data_size := 0, polls := polls st + 12,
              trace := trace st @ pulses 10\<rparr>
         \<and> config_fpga1 e st =
             Inr (st\<lparr>binary_data := Some [], binary_data_size := 0, polls := polls st + 12,
                     trace := trace st @ [Console (BinaryFileSize 1 0),
                                          GpioSet (push_bit NCONFIG_GPIO_PIN 1), Sleep1ms]
                                       @ pulses 10 @ [Console (Configured 1)]\<rparr>)"
proof -
  have "\<not> signalled (sigint e) (Suc (polls st) + 10)"
    using assms(3) by (rule not_signalled_earlier) simp
  then have r: "rounds (sigint e) (Suc (polls st)) 10 = 10"
    by (rule rounds_all)
  have img: "bitstream (st'\<lparr>binary_data := Some [], binary_data_size := 0\<rparr>) = []" for st'
    by (simp add: bitstream_def)
  have one: "transfer_data (sigint e) (st\<lparr>binary_data := Some [], binary_data_size := 0\<rparr>) =
           st\<lparr>binary_data := Some [], binary_data_size := 0, polls := polls st + 12,
              trace := trace st @ pulses 10\<rparr>"
    by (simp add: transfer_data_eq img rounds_zero r image_bits_Nil cells_def)
  have "\<not> signalled (exit_flag_seen e) (Suc (polls st) + 10)"
    unfolding exit_flag_seen_def
    using \<open>\<not> signalled (sigint e) (Suc (polls st) + 10)\<close> by (rule not_seen_before_signal)
  then have r': "rounds (exit_flag_seen e) (Suc (polls st)) 10 = 10"
    by (rule rounds_all)
  have two: "config_fpga1 e st =
             Inr (st\<lparr>binary_data := Some [], binary_data_size := 0, polls := polls st + 12,
                     trace := trace st @ [Console (BinaryFileSize 1 0),
                                          GpioSet (push_bit NCONFIG_GPIO_PIN 1), Sleep1ms]
                                       @ pulses 10 @ [Console (Configured 1)]\<rparr>)"
    using assms(1,2)
    by (simp add: config_fpga1_def Let_def transfer_data_eq bitstream_def rounds_zero r'
        image_bits_Nil cells_def MSG_def emit_def SET_GPIO_PIN_def)
  show ?thesis
    using one two by simp
qed

text \<open>
  The statement for a run whose first file is empty, from the initial state.
\<close>

theorem config_fpga1_empty_image_witness:
  "config_fpga1 empty_env initial_state =
     Inr (initial_state\<lparr>binary_data := Some [], binary_data_size := 0, polls := 12,
            trace := [Console (BinaryFileSize 1 0), GpioSet (push_bit NCONFIG_GPIO_PIN 1), Sleep1ms]
                     @ pulses 10 @ [Console (Configured 1)]\<rparr>)"
proof -
  have a: "fpga1_file empty_env = Some []"
    by (simp add: empty_env_def)
  have b: "\<not> new_throws empty_env 0"
    by (simp add: empty_env_def example_env_def never_throws_def)
  have c: "\<not> signalled (sigint empty_env) (polls initial_state + 11)"
    by (simp add: empty_env_def example_env_def signalled_def)
  from config_fpga1_empty_image [OF a b c, THEN conjunct2] show ?thesis
    by (simp add: initial_state_def)
qed

lemma signalled_later: "signalled sig p \<Longrightarrow> p \<le> q \<Longrightarrow> signalled sig q"
  by (auto simp add: signalled_def split: option.splits)

text \<open>
  Claim C4, as the code has it. Once a read finds \<open>exit_flag\<close> set, neither loop of
  \<open>_transfer_data\<close> writes to the hardware any more, from any point of the image or of
  the tail, and the reads that follow find it set too; but \<open>_config_fpga1\<close> and
  \<open>_config_fpga2\<close> print the "configured" line whenever the file was loaded, whatever
  the transfer did.
\<close>

theorem abort_writes_nothing_but_is_reported:
  "(signalled sig (polls st) \<longrightarrow>
      trace (data_loop sig bs st) = trace st
      \<and> signalled sig (polls (data_loop sig bs st))
      \<and> trace (dclk_loop sig c st) = trace st
      \<and> trace (transfer_data sig st) = trace st)
   \<and> (fpga1_file e = Some contents \<and> \<not> new_throws e (length contents) \<longrightarrow>
        (\<exists>st'. config_fpga1 e s = Inr st' \<and> last (trace st') = Console (Configured 1)))
   \<and> (fpga2_file e = Some contents \<and> \<not> new_throws e (length contents) \<longrightarrow>
        (\<exists>st'. config_fpga2 e s = Inr st' \<and> last (trace st') = Console (Configured 2)))"
proof -
  have stop: "trace (data_loop sig bs st) = trace st
      \<and> signalled sig (polls (data_loop sig bs st))
      \<and> trace (dclk_loop sig c st) = trace st
      \<and> trace (transfer_data sig st) = trace st" if s: "signalled sig (polls st)"
  proof -
    have r0: "rounds sig (polls st) n = 0" for n
      using s by (rule rounds_stop)
    have later: "signalled sig (Suc (polls st))"
      using s by (rule signalled_later) simp
    have r1: "rounds sig (Suc (polls st)) n = 0" for n
      using later by (rule rounds_stop)
    show ?thesis
      using later
      by (simp add: transfer_data_eq data_loop_eq dclk_loop_eq r0 r1 image_bits_Nil cells_def
          pulses_def)
  qed
  have rep1: "\<exists>st'. config_fpga1 e s = Inr st' \<and> last (trace st') = Console (Configured 1)"
    if "fpga1_file e = Some contents \<and> \<not> new_throws e (length contents)"
    using that by (simp add: config_fpga1_def Let_def MSG_def emit_def)
  have rep2: "\<exists>st'. config_fpga2 e s = Inr st' \<and> last (trace st') = Console (Configured 2)"
    if "fpga2_file e = Some contents \<and> \<not> new_throws e (length contents)"
    using that by (simp add: config_fpga2_def Let_def MSG_def emit_def)
  show ?thesis
    using stop rep1 rep2 by blast
qed

text \<open>
  The statement for a one-byte image with the flag found set by the first read.
\<close>

theorem abort_writes_nothing_but_is_reported_witness:
  "trace (transfer_data (Some 0) (loaded [0x01])) = trace (loaded [0x01])
   \<and> (\<exists>st'. config_fpga1 cancelled_env initial_state = Inr st'
             \<and> last (trace st') = Console (Configured 1))"
proof -
  have a: "signalled (Some 0) (polls (loaded [0x01]))"
    by (simp add: signalled_def)
  have b: "fpga1_file cancelled_env = Some [0x01]
           \<and> \<not> new_throws cancelled_env (length [0x01 :: u8])"
    by (simp add: cancelled_env_def example_env_def never_throws_def)
  from abort_writes_nothing_but_is_reported
         [of "Some 0" "loaded [0x01]" "[]" 0 cancelled_env "[0x01]" initial_state]
  show ?thesis
    using a b by blast
qed

text \<open>
  Claim C4 as stated fails: with the signal arriving before the first read of the flag
  and seen by that read, the transfer of a one-byte image is aborted without a single write, and the run of
  \<open>_config_fpga1\<close> still ends with the "configured" line.
\<close>

theorem cancelled_transfer_reported_configured:
  "config_fpga1 cancelled_env initial_state =
     Inr (initial_state\<lparr>binary_data := Some [0x01], binary_data_size := 1, polls := 2,
            trace := [Console (BinaryFileSize 1 1), GpioSet (push_bit NCONFIG_GPIO_PIN 1),
                      Sleep1ms, Console (Configured 1)]\<rparr>)"
  by (simp add: config_fpga1_def cancelled_env_def example_env_def never_throws_def Let_def
      exit_flag_seen_def seen_from_def
      transfer_data_eq bitstream_def rounds_def image_bits_Nil cells_def pulses_def
      MSG_def emit_def SET_GPIO_PIN_def initial_state_def)

end
